theory Spec2Isabelle
  imports Main
begin

section \<open>Sahaty: the scan session of \<open>src/index.tsx\<close>\<close>

text \<open>
  The repository is one React component, \<open>App\<close>. Its state hooks, its one DOM ref that
  matters (\<open>videoRef\<close>) and the camera streams it acquires are a record; each handler is a
  function on that record. An \<open>await\<close> splits a handler into the part before the
  suspension and the part that runs on completion, so that other handlers may run in
  between, as they can in the browser. Calls that leave the component (the remote
  request, the file reader, the camera request, the console, scrolling) are returned as a
  list of effects next to the new state. Of the render, the part that reads the
  nutrition of the displayed result is modelled: it is where a result without nutrition
  makes the component throw.
\<close>

subsection \<open>Values\<close>

text \<open>
  \<open>JSON.parse(...) as AnalysisResult\<close> is a compile-time cast: at run time an analysis
  result is whatever JSON value the text denotes. The type of numbers is a parameter
  \<open>'n\<close> (JavaScript numbers are IEEE doubles; \<open>Date.now()\<close> returns one of them). An
  object is the list of its own enumerable properties in enumeration order. A string is
  the list of its code units.
\<close>

datatype 'n json =
    JNull
  | JBool bool
  | JNumber 'n
  | JString string
  | JArray "'n json list"
  | JObject "(string \<times> 'n json) list"

datatype js_error = TypeError

text \<open>Decimal numerals, the property names of array and string indices.\<close>

definition digit :: "nat \<Rightarrow> char" where
  "digit d = ''0123456789'' ! (d mod 10)"

fun decimal :: "nat \<Rightarrow> string" where
  "decimal n = (if n < 10 then [digit n] else decimal (n div 10) @ [digit n])"

declare decimal.simps [simp del]

fun index_from :: "nat \<Rightarrow> 'a list \<Rightarrow> (string \<times> 'a) list" where
  "index_from i [] = []"
| "index_from i (x # xs) = (decimal i, x) # index_from (Suc i) xs"

text \<open>
  The own enumerable properties that an object spread \<open>{...v}\<close> copies: those of an
  object, the indexed elements of an array, the indexed code units of a string, and
  nothing for \<open>null\<close>, a boolean or a number.
\<close>

fun own_properties :: "'n json \<Rightarrow> (string \<times> 'n json) list" where
  "own_properties (JObject ps) = ps"
| "own_properties (JArray xs) = index_from 0 xs"
| "own_properties (JString s) = index_from 0 (map (\<lambda>c. JString [c]) s)"
| "own_properties _ = []"

text \<open>
  Writing a property of an object literal: an existing key keeps its place and takes the
  new value, a new key goes to the end.
\<close>

fun set_property :: "string \<Rightarrow> 'v \<Rightarrow> (string \<times> 'v) list \<Rightarrow> (string \<times> 'v) list" where
  "set_property k v [] = [(k, v)]"
| "set_property k v (p # ps) = (if fst p = k then (k, v) # ps else p # set_property k v ps)"

fun get_property :: "'n json \<Rightarrow> string \<Rightarrow> 'n json option" where
  "get_property (JObject ps) k = map_of ps k"
| "get_property _ k = None"

text \<open>Line 120: \<open>const resultWithMeta = { ...data, timestamp: Date.now() }\<close>.\<close>

definition resultWithMeta :: "'n json \<Rightarrow> 'n \<Rightarrow> 'n json" where
  "resultWithMeta data now = JObject (set_property ''timestamp'' (JNumber now) (own_properties data))"

subsection \<open>Array operations on the history\<close>

text \<open>
  The history hook holds what \<open>JSON.parse\<close> returned at startup, so it is a JSON value
  too, an array in every state that the handlers themselves produce. The elements that
  an array spread \<open>[...v]\<close> iterates: those of an array, the characters of a string; any
  other value is not iterable and the spread throws a TypeError.
\<close>

fun iterate :: "'n json \<Rightarrow> js_error + 'n json list" where
  "iterate (JArray xs) = Inr xs"
| "iterate (JString s) = Inr (map (\<lambda>c. JString [c]) s)"
| "iterate _ = Inl TypeError"

text \<open>\<open>Array.prototype.slice(0, n)\<close> on an array.\<close>

definition slice0 :: "nat \<Rightarrow> 'a list \<Rightarrow> 'a list" where
  "slice0 n xs = take n xs"

text \<open>Line 122, the updater \<open>prev => [resultWithMeta, ...prev].slice(0, 10)\<close>.\<close>

definition prepend_capped :: "'n json \<Rightarrow> 'n json \<Rightarrow> js_error + 'n json" where
  "prepend_capped r prev =
     (case iterate prev of
        Inl e \<Rightarrow> Inl e
      | Inr xs \<Rightarrow> Inr (JArray (slice0 10 (r # xs))))"

text \<open>
  \<open>Array.prototype.filter\<close>: the callback receives the element and its index, counted
  from the index of the first element.
\<close>

fun filter_from :: "nat \<Rightarrow> ('a \<Rightarrow> nat \<Rightarrow> bool) \<Rightarrow> 'a list \<Rightarrow> 'a list" where
  "filter_from i p [] = []"
| "filter_from i p (x # xs) =
     (if p x i then x # filter_from (Suc i) p xs else filter_from (Suc i) p xs)"

definition array_filter :: "('a \<Rightarrow> nat \<Rightarrow> bool) \<Rightarrow> 'a list \<Rightarrow> 'a list" where
  "array_filter p xs = filter_from 0 p xs"

text \<open>
  Line 184, the updater \<open>prev => prev.filter((_, i) => i !== index)\<close>. Only an array has
  a \<open>filter\<close> method; on any other JSON value the call throws a TypeError. The index is
  the integer the history list passes (\<open>idx\<close> of \<open>history.map\<close>, line 426); it is an
  \<open>int\<close> here so that values below zero are inputs too.
\<close>

definition remove_at :: "int \<Rightarrow> 'n json \<Rightarrow> js_error + 'n json" where
  "remove_at index prev =
     (case prev of
        JArray xs \<Rightarrow> Inr (JArray (array_filter (\<lambda>_ i. int i \<noteq> index) xs))
      | _ \<Rightarrow> Inl TypeError)"

subsection \<open>Component state\<close>

text \<open>
  The three messages the component can show (lines 125, 135 and 155 hold their Arabic
  text) and the two things it writes to the console (lines 62 and 124).
\<close>

datatype message = AnalysisFailed | FileTooLarge | CameraUnavailable

datatype console_entry = FailedToParseHistory | AnalysisException

record file_obj =
  file_size :: nat

datatype effect =
    GenerateContent string
  | ReadAsDataURL file_obj
  | GetUserMedia
  | ScrollTo nat
  | ConsoleError console_entry

text \<open>A media track is live until \<open>track.stop()\<close> ends it.\<close>

datatype readyState = Live | Ended

text \<open>
  The hooks of lines 44 to 49, the video ref of line 51 and the store of camera streams.
  \<open>result\<close> is \<open>JNull\<close> for \<open>null\<close>. A stream is named by its position in \<open>streams\<close>,
  the list of all streams acquired so far, each the list of its tracks.
  \<open>videoRef\<close> is \<open>None\<close> while no video element is mounted (\<open>videoRef.current\<close> is
  \<open>null\<close>) and \<open>Some src\<close> while one is, \<open>src\<close> being its \<open>srcObject\<close>. The canvas of
  line 446 is rendered unconditionally, so \<open>canvasRef.current\<close> is never \<open>null\<close> in a
  handler.
\<close>

record 'n app =
  image_st :: "string option"
  analyzing :: bool
  result :: "'n json"
  error :: "message option"
  showCamera :: bool
  history :: "'n json"
  videoRef :: "nat option option"
  streams :: "readyState list list"

definition initial :: "'n app" where
  "initial = \<lparr> image_st = None, analyzing = False, result = JNull, error = None,
               showCamera = False, history = JArray [], videoRef = None, streams = [] \<rparr>"

subsection \<open>History: load, append, remove, select\<close>

text \<open>
  Lines 56 to 65, the mount effect. \<open>saved\<close> is what \<open>localStorage.getItem\<close> returned
  (\<open>None\<close> for \<open>null\<close>); \<open>if (saved)\<close> is false for \<open>null\<close> and for the empty string.
  \<open>JSON.parse\<close> is the platform's; it is the parameter \<open>parse\<close>, \<open>None\<close> where it
  throws.
\<close>

definition loadHistory ::
  "(string \<Rightarrow> 'n json option) \<Rightarrow> string option \<Rightarrow> 'n app \<Rightarrow> 'n app \<times> effect list" where
  "loadHistory parse saved st =
     (case saved of
        None \<Rightarrow> (st, [])
      | Some s \<Rightarrow>
          if s = [] then (st, [])
          else (case parse s of
                  None \<Rightarrow> (st, [ConsoleError FailedToParseHistory])
                | Some v \<Rightarrow> (st\<lparr>history := v\<rparr>, [])))"

text \<open>
  Lines 183 to 185. A throwing updater is not caught by anything: the component is gone,
  which is the value \<open>Inl\<close>.
\<close>

definition deleteHistoryItem :: "int \<Rightarrow> 'n app \<Rightarrow> js_error + 'n app" where
  "deleteHistoryItem index st =
     (case remove_at index (history st) of
        Inl e \<Rightarrow> Inl e
      | Inr h \<Rightarrow> Inr (st\<lparr>history := h\<rparr>))"

text \<open>
  Line 413, the click handler that \<open>history.map\<close> gives the entry at position \<open>idx\<close>:
  \<open>setResult(item); window.scrollTo({ top: 400, ... })\<close>. There is such a handler only
  for the entries of an array.
\<close>

definition selectHistoryItem :: "nat \<Rightarrow> 'n app \<Rightarrow> ('n app \<times> effect list) option" where
  "selectHistoryItem idx st =
     (case history st of
        JArray xs \<Rightarrow>
          if idx < length xs then Some (st\<lparr>result := xs ! idx\<rparr>, [ScrollTo 400]) else None
      | _ \<Rightarrow> None)"

subsection \<open>Analyzer client\<close>

text \<open>
  How the \<open>await\<close> of line 111 ends: the request is rejected, or it yields a response,
  whose \<open>text\<close> may be \<open>undefined\<close> (\<open>None\<close>).
\<close>

datatype remote = Threw | Responded "string option"

text \<open>Line 119: \<open>response.text || '{}'\<close>.\<close>

definition text_or_default :: "string option \<Rightarrow> string" where
  "text_or_default text = (case text of None \<Rightarrow> ''{}'' | Some t \<Rightarrow> if t = [] then ''{}'' else t)"

text \<open>Lines 123 to 128: the \<open>catch\<close> block followed by \<open>finally\<close>.\<close>

definition analysis_failed :: "'n app \<Rightarrow> 'n app \<times> effect list" where
  "analysis_failed st =
     (st\<lparr>error := Some AnalysisFailed, analyzing := False\<rparr>, [ConsoleError AnalysisException])"

text \<open>
  Lines 74 to 117, up to the \<open>await\<close>. \<open>client\<close> tells whether the constructor of line 77
  returned a client. If it threw, the \<open>catch\<close> block runs at once and no request is made.
  Otherwise the request is made; its payload is not modelled beyond the image.
\<close>

definition analyzeProduct_begin :: "bool \<Rightarrow> string \<Rightarrow> 'n app \<Rightarrow> 'n app \<times> effect list" where
  "analyzeProduct_begin client base64Image st =
     (let st1 = st\<lparr>analyzing := True, error := None\<rparr>
      in if client then (st1, [GenerateContent base64Image]) else analysis_failed st1)"

text \<open>
  Lines 119 to 128, run on the state in which the request completes; \<open>now\<close> is what
  \<open>Date.now()\<close> returns there. The updater of line 122 runs outside the \<open>try\<close> block.
\<close>

definition analyzeProduct_complete ::
  "(string \<Rightarrow> 'n json option) \<Rightarrow> remote \<Rightarrow> 'n \<Rightarrow> 'n app \<Rightarrow> js_error + 'n app \<times> effect list" where
  "analyzeProduct_complete parse outcome now st =
     (case outcome of
        Threw \<Rightarrow> Inr (analysis_failed st)
      | Responded text \<Rightarrow>
          (case parse (text_or_default text) of
             None \<Rightarrow> Inr (analysis_failed st)
           | Some data \<Rightarrow>
               (let r = resultWithMeta data now in
                case prepend_capped r (history st) of
                  Inl e \<Rightarrow> Inl e
                | Inr h \<Rightarrow> Inr (st\<lparr>result := r, history := h, analyzing := False\<rparr>, []))))"

text \<open>
  One whole call of \<open>analyzeProduct\<close> (lines 73 to 129) with no other handler in between.
  This is the handler alone: the values it leaves in the hooks, before the component
  renders them.
\<close>

definition analyzeProduct ::
  "(string \<Rightarrow> 'n json option) \<Rightarrow> bool \<Rightarrow> string \<Rightarrow> remote \<Rightarrow> 'n \<Rightarrow> 'n app
     \<Rightarrow> js_error + 'n app \<times> effect list" where
  "analyzeProduct parse client base64Image outcome now st =
     (case analyzeProduct_begin client base64Image st of
        (st1, es1) \<Rightarrow>
          if client
          then (case analyzeProduct_complete parse outcome now st1 of
                  Inl e \<Rightarrow> Inl e
                | Inr (st2, es2) \<Rightarrow> Inr (st2, es1 @ es2))
          else Inr (st1, es1))"

subsection \<open>Rendering the result\<close>

text \<open>Whether \<open>v && ...\<close> goes on to its right operand.\<close>

fun truthy :: "('n::zero) json \<Rightarrow> bool" where
  "truthy JNull = False"
| "truthy (JBool b) = b"
| "truthy (JNumber n) = (n \<noteq> 0)"
| "truthy (JString s) = (s \<noteq> [])"
| "truthy (JArray xs) = True"
| "truthy (JObject ps) = True"

text \<open>
  Lines 345 to 351, the array of the five nutrition cells: \<open>result.nutrition.calories\<close>
  and its four siblings. \<open>result\<close> is not \<open>null\<close> here. Reading \<open>nutrition\<close> gives
  \<open>undefined\<close> (\<open>None\<close>) when \<open>result\<close> has no such property; reading a property of
  \<open>undefined\<close> or \<open>null\<close> throws a TypeError. None of the six names is an index,
  \<open>length\<close> or a property of a prototype, so only the own properties of an object count.
\<close>

definition nutrition_items :: "'n json \<Rightarrow> js_error + 'n json option list" where
  "nutrition_items r =
     (case get_property r ''nutrition'' of
        None \<Rightarrow> Inl TypeError
      | Some nutrition \<Rightarrow>
          (case nutrition of
             JNull \<Rightarrow> Inl TypeError
           | _ \<Rightarrow> Inr (map (get_property nutrition)
                        [''calories'', ''protein'', ''carbohydrates'', ''sugar'', ''fat''])))"

text \<open>
  The render of the component as far as line 351. After the hooks only the nutrition
  cells can throw up to there, and they are built only under the guard \<open>result &&\<close> of
  line 320.
\<close>

definition render_nutrition :: "('n::zero) app \<Rightarrow> js_error + 'n json option list" where
  "render_nutrition st = (if truthy (result st) then nutrition_items (result st) else Inr [])"

text \<open>
  A call of \<open>analyzeProduct\<close> followed by the render of the state it leaves. The
  component has no error boundary: when the render throws, React unmounts the root, which
  is the value \<open>Inl\<close>. \<open>Inr\<close> says that the render got past line 351.
\<close>

definition analyzeProduct_rendered ::
  "(string \<Rightarrow> ('n::zero) json option) \<Rightarrow> bool \<Rightarrow> string \<Rightarrow> remote \<Rightarrow> 'n \<Rightarrow> 'n app
     \<Rightarrow> js_error + 'n app \<times> effect list" where
  "analyzeProduct_rendered parse client base64Image outcome now st =
     (case analyzeProduct parse client base64Image outcome now st of
        Inl e \<Rightarrow> Inl e
      | Inr (st', es) \<Rightarrow>
          (case render_nutrition st' of
             Inl e \<Rightarrow> Inl e
           | Inr cells \<Rightarrow> Inr (st', es)))"

subsection \<open>Capture\<close>

text \<open>
  Lines 131 to 145. \<open>file\<close> is \<open>e.target.files?.[0]\<close>. An accepted file is handed to the
  reader; \<open>reader_onloadend\<close> is the callback of lines 139 to 142, \<open>r\<close> what the reader
  produced.
\<close>

definition handleFileUpload :: "file_obj option \<Rightarrow> 'n app \<Rightarrow> 'n app \<times> effect list" where
  "handleFileUpload file st =
     (case file of
        None \<Rightarrow> (st, [])
      | Some f \<Rightarrow>
          if file_size f > 5 * 1024 * 1024 then (st\<lparr>error := Some FileTooLarge\<rparr>, [])
          else (st, [ReadAsDataURL f]))"

definition reader_onloadend :: "string option \<Rightarrow> 'n app \<Rightarrow> 'n app" where
  "reader_onloadend r st = st\<lparr>image_st := r, result := JNull\<rparr>"

text \<open>
  The video element exists exactly while \<open>showCamera\<close> is rendered true (line 217 to 219).
  After a handler has run React commits: a newly mounted element has no \<open>srcObject\<close>,
  an unmounted one takes its \<open>srcObject\<close> with it and the ref is \<open>null\<close> again.
\<close>

definition commit :: "'n app \<Rightarrow> 'n app" where
  "commit st =
     (if showCamera st
      then (case videoRef st of None \<Rightarrow> st\<lparr>videoRef := Some None\<rparr> | Some _ \<Rightarrow> st)
      else st\<lparr>videoRef := None\<rparr>)"

text \<open>Line 178: \<open>stream.getTracks().forEach(track => track.stop())\<close> on stream \<open>i\<close>.\<close>

definition stop_tracks :: "nat \<Rightarrow> readyState list list \<Rightarrow> readyState list list" where
  "stop_tracks i ss = (if i < length ss then ss[i := map (\<lambda>_. Ended) (ss ! i)] else ss)"

text \<open>Lines 175 to 181.\<close>

definition stopCamera :: "'n app \<Rightarrow> 'n app" where
  "stopCamera st =
     (case videoRef st of
        Some (Some i) \<Rightarrow> st\<lparr>streams := stop_tracks i (streams st), showCamera := False\<rparr>
      | _ \<Rightarrow> st\<lparr>showCamera := False\<rparr>)"

text \<open>
  Lines 147 to 158: up to the \<open>await\<close>, then the continuation when the camera request is
  granted a stream of \<open>n\<close> live tracks, or the \<open>catch\<close> block when it is refused.
\<close>

definition startCamera_begin :: "'n app \<Rightarrow> 'n app \<times> effect list" where
  "startCamera_begin st = (st\<lparr>showCamera := True\<rparr>, [GetUserMedia])"

definition startCamera_resolved :: "nat \<Rightarrow> 'n app \<Rightarrow> 'n app" where
  "startCamera_resolved n st =
     (let stream = length (streams st);
          st' = st\<lparr>streams := streams st @ [replicate n Live]\<rparr>
      in case videoRef st of
           None \<Rightarrow> st'
         | Some _ \<Rightarrow> st'\<lparr>videoRef := Some (Some stream)\<rparr>)"

definition startCamera_rejected :: "'n app \<Rightarrow> 'n app" where
  "startCamera_rejected st = st\<lparr>error := Some CameraUnavailable, showCamera := False\<rparr>"

text \<open>
  Lines 160 to 173. \<open>context\<close> tells whether \<open>getContext('2d')\<close> returned a context,
  \<open>dataUrl\<close> is what \<open>toDataURL\<close> returns.
\<close>

definition capturePhoto :: "bool \<Rightarrow> string \<Rightarrow> 'n app \<Rightarrow> 'n app" where
  "capturePhoto context dataUrl st =
     (case videoRef st of
        None \<Rightarrow> st
      | Some _ \<Rightarrow>
          if context then (stopCamera (st\<lparr>image_st := Some dataUrl\<rparr>))\<lparr>result := JNull\<rparr>
          else st)"

text \<open>
  The camera's life as a sequence of events, each followed by the commit: the two buttons
  of camera mode, the button that starts it, and the two ways in which a pending camera
  request ends.
\<close>

datatype camera_event =
    StartCamera
  | Granted nat
  | Refused
  | Cancel
  | Capture bool string

fun camera_step :: "'n app \<Rightarrow> camera_event \<Rightarrow> 'n app" where
  "camera_step st StartCamera = commit (fst (startCamera_begin st))"
| "camera_step st (Granted n) = commit (startCamera_resolved n st)"
| "camera_step st Refused = commit (startCamera_rejected st)"
| "camera_step st Cancel = commit (stopCamera st)"
| "camera_step st (Capture context dataUrl) = commit (capturePhoto context dataUrl st)"

definition camera_run :: "camera_event list \<Rightarrow> 'n app \<Rightarrow> 'n app" where
  "camera_run es st = foldl camera_step st es"

text \<open>The number of live tracks of a stream.\<close>

definition active_tracks :: "readyState list \<Rightarrow> nat" where
  "active_tracks ts = length (filter (\<lambda>t. t = Live) ts)"

text \<open>
  A stream bound to the video element is one of the acquired streams. Every camera event
  keeps this (\<open>camera_run_bound\<close> below).
\<close>

definition bound_stream_exists :: "'n app \<Rightarrow> bool" where
  "bound_stream_exists st =
     (case videoRef st of Some (Some i) \<Rightarrow> i < length (streams st) | _ \<Rightarrow> True)"

subsection \<open>Running the model\<close>

text \<open>A sequence of appends: the updater of line 122 applied to one result after another.\<close>

fun appends :: "'n json list \<Rightarrow> 'n json \<Rightarrow> js_error + 'n json" where
  "appends [] h = Inr h"
| "appends (r # rs) h =
     (case prepend_capped r h of Inl e \<Rightarrow> Inl e | Inr h' \<Rightarrow> appends rs h')"

text \<open>
  The theorems below hold for every \<open>parse\<close>. To run them on examples, \<open>parse_examples\<close>
  gives the value of \<open>JSON.parse\<close> at the JSON texts the examples use. The other texts
  the examples use (the empty text, \<open><html>\<close> and \<open>[{\<close>) are texts at which
  \<open>JSON.parse\<close> throws a SyntaxError.
\<close>

definition parse_examples :: "string \<Rightarrow> int json option" where
  "parse_examples =
     map_of
       [(''{}'', JObject []),
        (''[]'', JArray []),
        (''{\"product_name\":\"x\",\"timestamp\":1}'',
           JObject [(''product_name'', JString ''x''), (''timestamp'', JNumber 1)]),
        (''[0,1,2,3,4,5,6,7,8,9,10]'',
           JArray [JNumber 0, JNumber 1, JNumber 2, JNumber 3, JNumber 4, JNumber 5,
                   JNumber 6, JNumber 7, JNumber 8, JNumber 9, JNumber 10])]"

section \<open>Properties\<close>

subsection \<open>Auxiliary facts\<close>

lemma set_property_lookup: "map_of (set_property k v ps) k = Some v"
  by (induction ps) auto

lemma set_property_twice: "set_property k v (set_property k w ps) = set_property k v ps"
  by (induction ps) auto

lemma prepend_capped_array:
  "prepend_capped r (JArray xs) = Inr (JArray (r # take 9 xs))"
  by (simp add: prepend_capped_def slice0_def numeral_eq_Suc)

lemma appends_array:
  "\<exists>ys. appends rs (JArray xs) = Inr (JArray ys)
        \<and> (rs \<noteq> [] \<or> length xs \<le> 10 \<longrightarrow> length ys \<le> 10)"
proof (induction rs arbitrary: xs)
  case Nil
  show ?case by simp
next
  case (Cons r rs)
  have "length (r # take 9 xs) \<le> 10" by simp
  with Cons.IH[of "r # take 9 xs"] show ?case
    by (auto simp: prepend_capped_array simp del: length_Cons)
qed

lemma filter_from_keep:
  "(\<And>j. k \<le> j \<Longrightarrow> j < k + length xs \<Longrightarrow> p j) \<Longrightarrow> filter_from k (\<lambda>_. p) xs = xs"
proof (induction xs arbitrary: k)
  case Nil
  show ?case by simp
next
  case (Cons x xs)
  have "p k" using Cons.prems[of k] by simp
  moreover have "filter_from (Suc k) (\<lambda>_. p) xs = xs"
    using Cons.prems by (intro Cons.IH) simp_all
  ultimately show ?case by simp
qed

lemma filter_from_skip:
  "filter_from k (\<lambda>_ j. j \<noteq> k + i) xs = take i xs @ drop (Suc i) xs"
proof (induction xs arbitrary: k i)
  case Nil
  show ?case by simp
next
  case (Cons x xs)
  show ?case
  proof (cases i)
    case 0
    have "filter_from (Suc k) (\<lambda>_ j. j \<noteq> k) xs = xs"
      by (rule filter_from_keep) simp
    then show ?thesis using 0 by simp
  next
    case (Suc i')
    then show ?thesis using Cons.IH[of "Suc k" i'] by simp
  qed
qed

lemma remove_at_inside:
  "remove_at (int i) (JArray xs) = Inr (JArray (take i xs @ drop (Suc i) xs))"
  using filter_from_skip[of 0 i xs] by (simp add: remove_at_def array_filter_def)

lemma remove_at_outside:
  assumes "index < 0 \<or> int (length xs) \<le> index"
  shows "remove_at index (JArray xs) = Inr (JArray xs)"
proof -
  have "filter_from 0 (\<lambda>_ j. int j \<noteq> index) xs = xs"
    using assms by (intro filter_from_keep) auto
  then show ?thesis by (simp add: remove_at_def array_filter_def)
qed

lemma analyzeProduct_complete_threw:
  "analyzeProduct_complete parse Threw now st = Inr (analysis_failed st)"
  by (simp add: analyzeProduct_complete_def)

lemma analyzeProduct_complete_unparsable:
  assumes "parse (text_or_default text) = None"
  shows "analyzeProduct_complete parse (Responded text) now st = Inr (analysis_failed st)"
  using assms by (simp add: analyzeProduct_complete_def)

lemma analyzeProduct_complete_parsed:
  assumes "parse (text_or_default text) = Some data" and "history st = JArray xs"
  shows "analyzeProduct_complete parse (Responded text) now st
         = Inr (st\<lparr>result := resultWithMeta data now,
                    history := JArray (resultWithMeta data now # take 9 xs),
                    analyzing := False\<rparr>, [])"
  using assms by (simp add: analyzeProduct_complete_def prepend_capped_array Let_def)

lemma active_tracks_stopped: "active_tracks (map (\<lambda>_. Ended) ts) = 0"
  by (induction ts) (simp_all add: active_tracks_def)

lemma stop_tracks_nth:
  "i < length ss \<Longrightarrow> active_tracks (stop_tracks i ss ! i) = 0"
  by (simp add: stop_tracks_def active_tracks_stopped)

lemma camera_step_bound:
  "bound_stream_exists st \<Longrightarrow> bound_stream_exists (camera_step st e)"
  by (cases e)
     (auto simp: bound_stream_exists_def commit_def startCamera_begin_def
        startCamera_resolved_def startCamera_rejected_def stopCamera_def capturePhoto_def
        Let_def stop_tracks_def
        split: option.splits if_splits)

lemma camera_run_bound:
  "bound_stream_exists st \<Longrightarrow> bound_stream_exists (camera_run es st)"
  unfolding camera_run_def
  by (induction es arbitrary: st) (simp_all add: camera_step_bound)

lemma initial_bound: "bound_stream_exists initial"
  by (simp add: bound_stream_exists_def initial_def)

text \<open>
  What \<open>stopCamera\<close> does release: when it runs while a stream is bound to the mounted
  video element, by the cancel button or by a capture that got a drawing context, that
  stream has no live track afterwards, camera mode is off and the next commit unmounts
  the video element.
\<close>

lemma stopCamera_stops_bound_stream:
  assumes "videoRef st = Some (Some i)" and "i < length (streams st)"
  shows "active_tracks (streams (stopCamera st) ! i) = 0
       \<and> \<not> showCamera (stopCamera st)
       \<and> videoRef (commit (stopCamera st)) = None
       \<and> active_tracks (streams (capturePhoto True dataUrl st) ! i) = 0
       \<and> \<not> showCamera (capturePhoto True dataUrl st)
       \<and> videoRef (commit (capturePhoto True dataUrl st)) = None
       \<and> image_st (capturePhoto True dataUrl st) = Some dataUrl"
  using assms
  by (simp add: stopCamera_def capturePhoto_def commit_def stop_tracks_nth)

subsection \<open>Analysis failure\<close>

text \<open>
  The \<open>catch\<close> path. When the request was made and \<open>JSON.parse\<close> throws on a response
  text that is not empty, \<open>analyzeProduct\<close> fails: the one fixed message is set, and the
  displayed result, the history and the current image are those from before the call.
  The exception was written to the console.
\<close>

lemma analyzeProduct_unparsable_fails:
  assumes "t \<noteq> []" and "parse t = None"
  shows "\<exists>st'. analyzeProduct parse True base64Image (Responded (Some t)) now st
                = Inr (st', [GenerateContent base64Image, ConsoleError AnalysisException])
           \<and> error st' = Some AnalysisFailed
           \<and> result st' = result st
           \<and> history st' = history st
           \<and> image_st st' = image_st st
           \<and> analyzing st' = False"
proof -
  have "parse (text_or_default (Some t)) = None"
    using assms by (simp add: text_or_default_def)
  then show ?thesis
    by (simp add: analyzeProduct_def analyzeProduct_begin_def
        analyzeProduct_complete_unparsable analysis_failed_def)
qed

text \<open>When the client cannot be constructed the same path runs and no request is made.\<close>

lemma analyzeProduct_no_client:
  "analyzeProduct parse False base64Image outcome now st
     = Inr (st\<lparr>analyzing := False, error := Some AnalysisFailed\<rparr>,
            [ConsoleError AnalysisException])"
  by (simp add: analyzeProduct_def analyzeProduct_begin_def analysis_failed_def)

text \<open>
  Claim C1 asks that a response text that is not valid JSON, the empty text included,
  ends in the failure message with no result produced and the history unchanged. The
  code does not do this for the empty text. \<open>JSON.parse\<close> throws on the empty text, but
  line 119 parses \<open>{}\<close> in its place (the same for a missing text), so the \<open>catch\<close>
  block does not run: the handler sets no message, stores a result that holds only the
  timestamp and puts it in front of the history. The render that follows throws a
  TypeError at line 346, where it reads \<open>result.nutrition.calories\<close>, and the root is
  unmounted.
\<close>

theorem analyzeProduct_empty_response_crashes:
  "parse_examples [] = None
   \<and> analyzeProduct parse_examples True ''data:image/jpeg;base64,AAAA''
       (Responded (Some [])) 7 initial
     = Inr (initial\<lparr>result := JObject [(''timestamp'', JNumber 7)],
                     history := JArray [JObject [(''timestamp'', JNumber 7)]]\<rparr>,
            [GenerateContent ''data:image/jpeg;base64,AAAA''])
   \<and> nutrition_items (JObject [(''timestamp'', JNumber (7::int))]) = Inl TypeError
   \<and> analyzeProduct_rendered parse_examples True ''data:image/jpeg;base64,AAAA''
       (Responded (Some [])) 7 initial
     = Inl TypeError
   \<and> analyzeProduct_rendered parse_examples True ''data:image/jpeg;base64,AAAA''
       (Responded None) 7 initial
     = Inl TypeError"
  by (simp add: parse_examples_def analyzeProduct_rendered_def analyzeProduct_def
      analyzeProduct_begin_def analyzeProduct_complete_def text_or_default_def
      resultWithMeta_def prepend_capped_def slice0_def initial_def Let_def
      render_nutrition_def nutrition_items_def)

subsection \<open>Camera release\<close>

text \<open>
  Claim C2 asks that no reachable state holds an acquired stream with a live track while
  no preview is shown. The code does not keep this. The camera is started, cancelled
  while the camera request is pending, and the request is then granted a stream of one
  track: the continuation of \<open>startCamera\<close> finds no video element (lines 151 to 153
  have no \<open>else\<close>), so the stream is neither bound nor stopped. Camera mode is off, no
  video element is mounted, and the track is live.
\<close>

theorem camera_cancel_before_grant_leaks:
  "camera_run [StartCamera, Cancel, Granted 1] (initial :: int app)
     = initial\<lparr>streams := [[Live]]\<rparr>
   \<and> \<not> showCamera (camera_run [StartCamera, Cancel, Granted 1] (initial :: int app))
   \<and> videoRef (camera_run [StartCamera, Cancel, Granted 1] (initial :: int app)) = None
   \<and> active_tracks
        (streams (camera_run [StartCamera, Cancel, Granted 1] (initial :: int app)) ! 0) = 1"
  by (simp add: camera_run_def commit_def startCamera_begin_def startCamera_resolved_def
        initial_def Let_def stopCamera_def active_tracks_def)

text \<open>
  A second click on the start button while camera mode is already on: the second stream
  replaces the first as \<open>srcObject\<close>, and cancelling stops the second one only.
\<close>

lemma camera_second_start_leaks:
  "streams (camera_run [StartCamera, StartCamera, Granted 1, Granted 1, Cancel]
              (initial :: int app))
     = [[Live], [Ended]]"
  by (simp add: camera_run_def commit_def startCamera_begin_def startCamera_resolved_def
        initial_def Let_def stopCamera_def stop_tracks_def)

subsection \<open>History cap\<close>

text \<open>
  Claim C3. From a history of at most 10 entries, any sequence of appends ends in a
  history of at most 10 entries. One append puts the new result at position 0 in front
  of the old entries, without the last of them when there were already 10.
\<close>

theorem history_append_capped:
  assumes "length xs \<le> 10"
  shows "(\<exists>ys. appends rs (JArray xs) = Inr (JArray ys) \<and> length ys \<le> 10)
       \<and> prepend_capped r (JArray xs)
           = Inr (JArray (r # (if length xs < 10 then xs else butlast xs)))"
proof -
  have "take 9 xs = (if length xs < 10 then xs else butlast xs)"
    using assms by (auto simp: butlast_conv_take le_less)
  moreover obtain ys where "appends rs (JArray xs) = Inr (JArray ys)" "length ys \<le> 10"
    using appends_array[of rs xs] assms by blast
  ultimately show ?thesis by (auto simp: prepend_capped_array)
qed

theorem history_append_capped_witness:
  "length [JNumber 1, JNumber 2, JNumber 3, JNumber 4, JNumber 5, JNumber 6, JNumber 7,
           JNumber 8, JNumber 9, JNumber (10::int)] \<le> 10
   \<and> appends [JNumber 11, JNumber 12]
        (JArray [JNumber 1, JNumber 2, JNumber 3, JNumber 4, JNumber 5, JNumber 6, JNumber 7,
                 JNumber 8, JNumber 9, JNumber (10::int)])
      = Inr (JArray [JNumber 12, JNumber 11, JNumber 1, JNumber 2, JNumber 3, JNumber 4,
                     JNumber 5, JNumber 6, JNumber 7, JNumber 8])
   \<and> prepend_capped (JNumber 11)
        (JArray [JNumber 1, JNumber 2, JNumber 3, JNumber 4, JNumber 5, JNumber 6, JNumber 7,
                 JNumber 8, JNumber 9, JNumber (10::int)])
      = Inr (JArray [JNumber 11, JNumber 1, JNumber 2, JNumber 3, JNumber 4, JNumber 5,
                     JNumber 6, JNumber 7, JNumber 8, JNumber 9])"
  using history_append_capped
          [of "[JNumber 1, JNumber 2, JNumber 3, JNumber 4, JNumber 5, JNumber 6, JNumber 7,
                JNumber 8, JNumber 9, JNumber (10::int)]"
              "[JNumber 11, JNumber 12]" "JNumber 11"]
  by (simp add: prepend_capped_def slice0_def)

subsection \<open>Oversized files\<close>

text \<open>
  Claim C4. A file of more than 5 * 1024 * 1024 bytes is rejected: the size message is
  set, nothing else of the state changes (the current image and the displayed result
  stay) and the file is not handed to the reader.
\<close>

theorem handleFileUpload_rejects_oversized:
  assumes "5 * 1024 * 1024 < file_size f"
  shows "handleFileUpload (Some f) st = (st\<lparr>error := Some FileTooLarge\<rparr>, [])
       \<and> image_st (fst (handleFileUpload (Some f) st)) = image_st st
       \<and> result (fst (handleFileUpload (Some f) st)) = result st
       \<and> error (fst (handleFileUpload (Some f) st)) = Some FileTooLarge
       \<and> ReadAsDataURL f \<notin> set (snd (handleFileUpload (Some f) st))"
  using assms by (simp add: handleFileUpload_def)

theorem handleFileUpload_rejects_oversized_witness:
  "5 * 1024 * 1024 < file_size \<lparr>file_size = 6000000\<rparr>
   \<and> handleFileUpload (Some \<lparr>file_size = 6000000\<rparr>)
        ((initial :: int app)\<lparr>image_st := Some ''data:image/png;base64,AAAA'',
                               result := JObject []\<rparr>)
      = (initial\<lparr>image_st := Some ''data:image/png;base64,AAAA'', result := JObject [],
                  error := Some FileTooLarge\<rparr>, [])"
  using handleFileUpload_rejects_oversized
          [of "\<lparr>file_size = 6000000\<rparr>"
              "(initial :: int app)\<lparr>image_st := Some ''data:image/png;base64,AAAA'',
                                     result := JObject []\<rparr>"]
  by simp

subsection \<open>Timestamp\<close>

text \<open>
  Claim C5. When the parsed text is valid JSON the analysis succeeds, the \<open>timestamp\<close>
  of the displayed result is the clock value read at completion, and that result is the
  first entry of the history. A \<open>timestamp\<close> sent by the service is never used: whatever
  value it has, the result is the same.
\<close>

theorem analyzeProduct_timestamp_is_local:
  assumes "parse (text_or_default text) = Some data" and "history st = JArray xs"
  shows "\<exists>st'. analyzeProduct_complete parse (Responded text) now st = Inr (st', [])
           \<and> get_property (result st') ''timestamp'' = Some (JNumber now)
           \<and> history st' = JArray (result st' # take 9 xs)
           \<and> (\<forall>v. resultWithMeta
                      (JObject (set_property ''timestamp'' v (own_properties data))) now
                    = result st')"
  using assms
  by (simp add: analyzeProduct_complete_parsed resultWithMeta_def set_property_lookup
      set_property_twice)

theorem analyzeProduct_timestamp_is_local_witness:
  "parse_examples (text_or_default (Some ''{\"product_name\":\"x\",\"timestamp\":1}''))
     = Some (JObject [(''product_name'', JString ''x''), (''timestamp'', JNumber 1)])
   \<and> history (initial :: int app) = JArray []
   \<and> (\<exists>st'. analyzeProduct_complete parse_examples
               (Responded (Some ''{\"product_name\":\"x\",\"timestamp\":1}''))
               1700000000000 initial
             = Inr (st', [])
           \<and> result st' = JObject [(''product_name'', JString ''x''),
                                    (''timestamp'', JNumber 1700000000000)]
           \<and> get_property (result st') ''timestamp'' = Some (JNumber 1700000000000))"
proof -
  have h1: "parse_examples (text_or_default (Some ''{\"product_name\":\"x\",\"timestamp\":1}''))
     = Some (JObject [(''product_name'', JString ''x''), (''timestamp'', JNumber 1)])"
    by (simp add: parse_examples_def text_or_default_def)
  have h2: "history (initial :: int app) = JArray []"
    by (simp add: initial_def)
  from analyzeProduct_timestamp_is_local
         [where parse = parse_examples and st = initial and now = 1700000000000, OF h1 h2]
  obtain st' where st': "analyzeProduct_complete parse_examples
               (Responded (Some ''{\"product_name\":\"x\",\"timestamp\":1}''))
               1700000000000 initial
             = Inr (st', [])"
     "get_property (result st') ''timestamp'' = Some (JNumber 1700000000000)"
     "\<forall>v. resultWithMeta (JObject (set_property ''timestamp'' v
          (own_properties (JObject [(''product_name'', JString ''x''),
                                    (''timestamp'', JNumber 1)])))) 1700000000000
          = result st'"
    by blast
  from st'(3) have "result st' = JObject [(''product_name'', JString ''x''),
                                         (''timestamp'', JNumber 1700000000000)]"
    by (simp add: resultWithMeta_def)
  with st' h1 h2 show ?thesis by blast
qed

subsection \<open>Removing an entry\<close>

text \<open>
  Claim C6. For a history of \<open>n\<close> entries and a position \<open>i\<close> below \<open>n\<close>,
  \<open>deleteHistoryItem\<close> leaves the entries before \<open>i\<close> followed by the entries after
  \<open>i\<close>: \<open>n - 1\<close> entries, each entry before \<open>i\<close> at its old position and each entry
  after \<open>i\<close> one position earlier.
\<close>

theorem deleteHistoryItem_removes_position:
  assumes "history st = JArray xs" and "i < length xs"
  shows "\<exists>ys. deleteHistoryItem (int i) st = Inr (st\<lparr>history := JArray ys\<rparr>)
           \<and> ys = take i xs @ drop (Suc i) xs
           \<and> length ys = length xs - 1
           \<and> (\<forall>j. j < i \<longrightarrow> ys ! j = xs ! j)
           \<and> (\<forall>j. i \<le> j \<and> j < length ys \<longrightarrow> ys ! j = xs ! Suc j)"
proof -
  let ?ys = "take i xs @ drop (Suc i) xs"
  have del: "deleteHistoryItem (int i) st = Inr (st\<lparr>history := JArray ?ys\<rparr>)"
    using assms(1) by (simp add: deleteHistoryItem_def remove_at_inside)
  have len: "length ?ys = length xs - 1"
    using assms(2) by simp
  have before: "\<forall>j. j < i \<longrightarrow> ?ys ! j = xs ! j"
    using assms(2) by (simp add: nth_append)
  have after: "\<forall>j. i \<le> j \<and> j < length ?ys \<longrightarrow> ?ys ! j = xs ! Suc j"
    using assms(2) by (auto simp: nth_append min_def)
  from del len before after show ?thesis by blast
qed

theorem deleteHistoryItem_removes_position_witness:
  "history ((initial :: int app)\<lparr>history := JArray [JNumber 1, JNumber 2, JNumber 3]\<rparr>)
     = JArray [JNumber 1, JNumber 2, JNumber 3]
   \<and> (1::nat) < length [JNumber 1, JNumber 2, JNumber (3::int)]
   \<and> deleteHistoryItem 1
        ((initial :: int app)\<lparr>history := JArray [JNumber 1, JNumber 2, JNumber 3]\<rparr>)
      = Inr (initial\<lparr>history := JArray [JNumber 1, JNumber 3]\<rparr>)"
  using deleteHistoryItem_removes_position
          [of "(initial :: int app)\<lparr>history := JArray [JNumber 1, JNumber 2, JNumber 3]\<rparr>"
              "[JNumber 1, JNumber 2, JNumber 3]" 1]
  by simp

subsection \<open>Selecting an entry\<close>

text \<open>
  Claim C7. Clicking the entry at position \<open>idx\<close> makes it the displayed result and
  changes nothing else of the state: the history is the same list, no analysis is in
  flight that was not before, and the only effect is the scroll, so no request goes to
  the analyzer.
\<close>

theorem selectHistoryItem_frame:
  assumes "history st = JArray xs" and "idx < length xs"
  shows "\<exists>st' es. selectHistoryItem idx st = Some (st', es)
           \<and> result st' = xs ! idx
           \<and> history st' = JArray xs
           \<and> analyzing st' = analyzing st
           \<and> (\<forall>img. GenerateContent img \<notin> set es)
           \<and> st' = st\<lparr>result := xs ! idx\<rparr>"
  using assms by (simp add: selectHistoryItem_def)

theorem selectHistoryItem_frame_witness:
  "history ((initial :: int app)\<lparr>history := JArray [JNumber 1, JNumber 2, JNumber 3]\<rparr>)
     = JArray [JNumber 1, JNumber 2, JNumber 3]
   \<and> (1::nat) < length [JNumber 1, JNumber 2, JNumber (3::int)]
   \<and> selectHistoryItem 1
        ((initial :: int app)\<lparr>history := JArray [JNumber 1, JNumber 2, JNumber 3]\<rparr>)
     = Some (initial\<lparr>history := JArray [JNumber 1, JNumber 2, JNumber 3],
                      result := JNumber 2\<rparr>,
             [ScrollTo 400])"
  using selectHistoryItem_frame
          [of "(initial :: int app)\<lparr>history := JArray [JNumber 1, JNumber 2, JNumber 3]\<rparr>"
              "[JNumber 1, JNumber 2, JNumber 3]" 1]
  by (simp add: selectHistoryItem_def)

subsection \<open>Loading the history\<close>

text \<open>
  Claim C8. At startup the history is the empty array and no message is shown when the
  stored snapshot is absent (\<open>null\<close>, or the empty string, which \<open>if (saved)\<close> treats
  like \<open>null\<close>: it is not parsed) and when \<open>JSON.parse\<close> throws on it. In the second
  case, and only then, the failure is written to the console.
\<close>

theorem loadHistory_absent_or_unparsable:
  assumes "saved = None \<or> saved = Some []
           \<or> (\<exists>s. saved = Some s \<and> s \<noteq> [] \<and> parse s = None)"
  shows "fst (loadHistory parse saved initial) = initial
       \<and> history (fst (loadHistory parse saved initial)) = JArray []
       \<and> error (fst (loadHistory parse saved initial)) = None
       \<and> snd (loadHistory parse saved initial)
           = (if saved = None \<or> saved = Some [] then []
              else [ConsoleError FailedToParseHistory])"
  using assms by (auto simp: loadHistory_def initial_def)

theorem loadHistory_absent_or_unparsable_witness:
  "parse_examples ''[{'' = None
   \<and> loadHistory parse_examples (Some ''[{'') initial
       = (initial, [ConsoleError FailedToParseHistory])
   \<and> loadHistory parse_examples None initial = (initial, [])
   \<and> history (initial :: int app) = JArray []
   \<and> error (initial :: int app) = None"
proof -
  have p: "parse_examples ''[{'' = None"
    by (simp add: parse_examples_def)
  have a: "Some ''[{'' = None \<or> Some ''[{'' = Some []
           \<or> (\<exists>s. Some ''[{'' = Some s \<and> s \<noteq> [] \<and> parse_examples s = None)"
    using p by simp
  have b: "(None :: string option) = None \<or> None = Some []
           \<or> (\<exists>s. None = Some s \<and> s \<noteq> [] \<and> parse_examples s = None)"
    by simp
  from loadHistory_absent_or_unparsable [where parse = parse_examples, OF a]
       loadHistory_absent_or_unparsable [where parse = parse_examples, OF b] p
  show ?thesis by (simp add: prod_eq_iff initial_def)
qed

text \<open>
  Claim C9. A stored snapshot that parses to an array of more than 10 entries becomes the
  history as it is, all entries kept. The next successful analysis leaves exactly 10: the
  new result and the first 9 of the restored entries.
\<close>

theorem loadHistory_restores_uncapped:
  assumes "s \<noteq> []" and "parse s = Some (JArray xs)" and "10 < length xs"
    and "parse (text_or_default text) = Some data"
  shows "\<exists>st1. loadHistory parse (Some s) st = (st1, [])
           \<and> history st1 = JArray xs
           \<and> (\<exists>st2 ys. analyzeProduct_complete parse (Responded text) now st1 = Inr (st2, [])
                 \<and> history st2 = JArray ys \<and> length ys = 10
                 \<and> ys = resultWithMeta data now # take 9 xs)"
proof -
  have load: "loadHistory parse (Some s) st = (st\<lparr>history := JArray xs\<rparr>, [])"
    using assms(1,2) by (simp add: loadHistory_def)
  have fin: "analyzeProduct_complete parse (Responded text) now (st\<lparr>history := JArray xs\<rparr>)
      = Inr (st\<lparr>history := JArray xs, result := resultWithMeta data now,
                 history := JArray (resultWithMeta data now # take 9 xs),
                 analyzing := False\<rparr>, [])"
    using assms(4) by (simp add: analyzeProduct_complete_parsed [where xs = xs])
  have "length (resultWithMeta data now # take 9 xs) = 10"
    using assms(3) by simp
  with load fin show ?thesis by simp
qed

theorem loadHistory_restores_uncapped_witness:
  "''[0,1,2,3,4,5,6,7,8,9,10]'' \<noteq> []
   \<and> parse_examples ''[0,1,2,3,4,5,6,7,8,9,10]''
       = Some (JArray [JNumber 0, JNumber 1, JNumber 2, JNumber 3, JNumber 4, JNumber 5,
                   JNumber 6, JNumber 7, JNumber 8, JNumber 9, JNumber 10])
   \<and> 10 < length [JNumber 0, JNumber 1, JNumber 2, JNumber 3, JNumber 4, JNumber 5,
                   JNumber 6, JNumber 7, JNumber 8, JNumber 9, JNumber (10::int)]
   \<and> parse_examples (text_or_default (Some ''{}'')) = Some (JObject [])
   \<and> (\<exists>st1. loadHistory parse_examples (Some ''[0,1,2,3,4,5,6,7,8,9,10]'') initial = (st1, [])
           \<and> history st1 = JArray [JNumber 0, JNumber 1, JNumber 2, JNumber 3, JNumber 4,
                   JNumber 5, JNumber 6, JNumber 7, JNumber 8, JNumber 9, JNumber 10]
           \<and> (\<exists>st2. analyzeProduct_complete parse_examples (Responded (Some ''{}'')) 7 st1
                       = Inr (st2, [])
                 \<and> history st2 = JArray [JObject [(''timestamp'', JNumber 7)],
                   JNumber 0, JNumber 1, JNumber 2, JNumber 3, JNumber 4, JNumber 5,
                   JNumber 6, JNumber 7, JNumber 8]))"
proof -
  have h1: "''[0,1,2,3,4,5,6,7,8,9,10]'' \<noteq> []" by simp
  have h2: "parse_examples ''[0,1,2,3,4,5,6,7,8,9,10]''
       = Some (JArray [JNumber 0, JNumber 1, JNumber 2, JNumber 3, JNumber 4, JNumber 5,
                   JNumber 6, JNumber 7, JNumber 8, JNumber 9, JNumber 10])"
    by (simp add: parse_examples_def)
  have h3: "10 < length [JNumber 0, JNumber 1, JNumber 2, JNumber 3, JNumber 4, JNumber 5,
                   JNumber 6, JNumber 7, JNumber 8, JNumber 9, JNumber (10::int)]" by simp
  have h4: "parse_examples (text_or_default (Some ''{}'')) = Some (JObject [])"
    by (simp add: parse_examples_def text_or_default_def)
  from loadHistory_restores_uncapped
         [where parse = parse_examples and st = initial and now = 7, OF h1 h2 h3 h4]
       h1 h2 h3 h4
  show ?thesis by (simp add: resultWithMeta_def)
qed

subsection \<open>Removing at a position that does not exist\<close>

text \<open>
  Claim C10. For an index below 0 or at least the length of the history,
  \<open>deleteHistoryItem\<close> returns normally and the state, the history with it, is the one
  it was given.
\<close>

theorem deleteHistoryItem_out_of_range:
  assumes "history st = JArray xs" and "index < 0 \<or> int (length xs) \<le> index"
  shows "deleteHistoryItem index st = Inr st"
  using assms by (simp add: deleteHistoryItem_def remove_at_outside)

theorem deleteHistoryItem_out_of_range_witness:
  "history ((initial :: int app)\<lparr>history := JArray [JNumber 1, JNumber 2, JNumber 3]\<rparr>)
     = JArray [JNumber 1, JNumber 2, JNumber 3]
   \<and> ((3::int) < 0 \<or> int (length [JNumber 1, JNumber 2, JNumber (3::int)]) \<le> 3)
   \<and> deleteHistoryItem 3
        ((initial :: int app)\<lparr>history := JArray [JNumber 1, JNumber 2, JNumber 3]\<rparr>)
      = Inr (initial\<lparr>history := JArray [JNumber 1, JNumber 2, JNumber 3]\<rparr>)
   \<and> deleteHistoryItem (- 1)
        ((initial :: int app)\<lparr>history := JArray [JNumber 1, JNumber 2, JNumber 3]\<rparr>)
      = Inr (initial\<lparr>history := JArray [JNumber 1, JNumber 2, JNumber 3]\<rparr>)"
  using deleteHistoryItem_out_of_range
          [of "(initial :: int app)\<lparr>history := JArray [JNumber 1, JNumber 2, JNumber 3]\<rparr>"
              "[JNumber 1, JNumber 2, JNumber 3]" 3]
        deleteHistoryItem_out_of_range
          [of "(initial :: int app)\<lparr>history := JArray [JNumber 1, JNumber 2, JNumber 3]\<rparr>"
              "[JNumber 1, JNumber 2, JNumber 3]" "- 1"]
  by simp

end
